theory Spec2Isabelle
  imports Main
begin

section \<open>Package pjutil: helpers for working with ProwJobs\<close>

text \<open>
  A shallow embedding of the Go package \<open>pjutil\<close>: the four spec builders, \<open>NewProwJob\<close>,
  \<open>ProwJobToPod\<close> with \<open>kubeEnv\<close>, \<open>PartitionActive\<close> and \<open>GetLatestProwJobs\<close>.

  Go structs whose values nest themselves (\<open>config.Presubmit\<close>, \<open>kube.ProwJobSpec\<close>) are
  datatypes, the other structs are records. Field names carry a short prefix of their struct,
  because Go reuses \<open>Name\<close>, \<open>Spec\<close> and \<open>Labels\<close> across structs. A Go map is a partial
  function and a Go string is a \<open>string\<close>.

  The code writes through one kind of slice only: \<open>ProwJobToPod\<close> appends to the \<open>Env\<close> slice
  of a container, which may write into the backing array that the record's own containers
  share. An \<open>Env\<close> slice is therefore a window on an array in an explicit heap. Every other
  slice is only read, or is built afresh by the function that returns it, and is a list (the
  nil slice and the empty slice are both \<open>[]\<close>).
\<close>

subsection \<open>Types of package kube and of the Kubernetes API\<close>

text \<open>
  Modelled from the spec: the packages \<open>kube\<close> and \<open>config\<close> and the Kubernetes API, which
  declare the types below, are outside the source at hand. Each struct has the fields that
  the code of \<open>pjutil\<close> reads or writes; they are the fields of the spec's data model
  (section 3).

  \<open>kube.ProwJobType\<close> and \<open>kube.ProwJobAgent\<close> are string types: the code converts between
  them and \<open>string\<close> (\<open>string(pj.Spec.Type)\<close>, \<open>kube.ProwJobAgent(p.Agent)\<close>).
\<close>

type_synonym ProwJobType = string
type_synonym ProwJobAgent = string

text \<open>
  Modelled from the spec: the type \<open>kube.ProwJobState\<close> and its constants are declared outside
  the source at hand. The spec (section 3) gives the lifecycle states as Triggered, Pending,
  Success, Failure, Aborted and Error; the code only compares a state with \<open>PendingState\<close> and
  \<open>TriggeredState\<close>.
\<close>

datatype ProwJobState =
  TriggeredState | PendingState | SuccessState | FailureState | AbortedState | ErrorState

text \<open>
  The string constants of package \<open>kube\<close> that the code mentions are declared outside the
  source at hand as well; their values are parameters of the embedding.
\<close>

record kube_consts =
  PresubmitJob :: ProwJobType
  PostsubmitJob :: ProwJobType
  PeriodicJob :: ProwJobType
  BatchJob :: ProwJobType
  KubernetesAgent :: ProwJobAgent
  DefaultClusterAlias :: string
  CreatedByProw :: string
  ProwJobTypeLabel :: string
  ProwJobAnnotation :: string

text \<open>
  \<open>time.Time\<close> of Go's library (which \<open>metav1.Time\<close> wraps): an instant, counted relative to
  the zero \<open>Time\<close>, which is \<open>0\<close>; instants before the zero \<open>Time\<close> are negative.
  \<open>t.After(u)\<close> is \<open>u < t\<close>.
\<close>

type_synonym Time = int

definition zero_Time :: Time where
  "zero_Time = 0"

definition After :: "Time \<Rightarrow> Time \<Rightarrow> bool" where
  "After t u = (u < t)"

text \<open>\<open>kube.Pull\<close> and \<open>kube.Refs\<close>, with the fields the spec and \<open>ProwJobFields\<close> name.\<close>

record Pull =
  pull_Number :: int

record Refs =
  refs_Org :: string
  refs_Repo :: string
  refs_BaseRef :: string
  refs_Pulls :: "Pull list"

definition zero_Refs :: Refs where
  "zero_Refs = \<lparr>refs_Org = '''', refs_Repo = '''', refs_BaseRef = '''', refs_Pulls = []\<rparr>"

text \<open>\<open>v1.EnvVar\<close>, \<open>v1.Container\<close> and \<open>v1.PodSpec\<close>, with the fields the code touches.\<close>

record EnvVar =
  ev_Name :: string
  ev_Value :: string

definition zero_EnvVar :: EnvVar where
  "zero_EnvVar = \<lparr>ev_Name = '''', ev_Value = ''''\<rparr>"

text \<open>
  A Go slice of \<open>v1.EnvVar\<close>: the backing array it points into, the offset of its first
  element in that array, its length and its capacity. The heap holds the backing arrays, an
  array being the list of its cells and its address its position in the heap. The elements
  of a slice are the \<open>sl_len\<close> cells from \<open>sl_off\<close> on; the cells up to \<open>sl_off + sl_cap\<close> are
  its spare capacity. The nil slice has length and capacity 0.
\<close>

record slice =
  sl_array :: nat
  sl_off :: nat
  sl_len :: nat
  sl_cap :: nat

type_synonym heap = "EnvVar list list"

definition nil_slice :: slice where
  "nil_slice = \<lparr>sl_array = 0, sl_off = 0, sl_len = 0, sl_cap = 0\<rparr>"

definition slice_elems :: "heap \<Rightarrow> slice \<Rightarrow> EnvVar list" where
  "slice_elems h s = take (sl_len s) (drop (sl_off s) (h ! sl_array s))"

record Container =
  c_Name :: string
  c_Env :: slice

record PodSpec =
  ps_RestartPolicy :: string
  ps_InitContainers :: "Container list"
  ps_Containers :: "Container list"

definition zero_PodSpec :: PodSpec where
  "zero_PodSpec = \<lparr>ps_RestartPolicy = '''', ps_InitContainers = [], ps_Containers = []\<rparr>"

text \<open>\<open>kube.ProwJobSpec\<close>. \<open>pjs_PodSpec\<close> is a struct value, not a pointer.\<close>

datatype ProwJobSpec = ProwJobSpec
  (pjs_Type: ProwJobType)
  (pjs_Agent: ProwJobAgent)
  (pjs_Cluster: string)
  (pjs_Job: string)
  (pjs_Refs: Refs)
  (pjs_Report: bool)
  (pjs_Context: string)
  (pjs_RerunCommand: string)
  (pjs_MaxConcurrency: int)
  (pjs_PodSpec: PodSpec)
  (pjs_RunAfterSuccess: "ProwJobSpec list")

record ObjectMeta =
  om_Name :: string
  om_Labels :: "string \<rightharpoonup> string"
  om_Annotations :: "string \<rightharpoonup> string"

record ProwJobStatus =
  st_StartTime :: Time
  st_State :: ProwJobState

record ProwJob =
  pj_APIVersion :: string
  pj_Kind :: string
  pj_ObjectMeta :: ObjectMeta
  pj_Spec :: ProwJobSpec
  pj_Status :: ProwJobStatus

record Pod =
  pod_ObjectMeta :: ObjectMeta
  pod_Spec :: PodSpec

subsection \<open>Job templates of package config\<close>




subsection \<open>The spec builders\<close>





fun set_RunAfterSuccess :: "ProwJobSpec list \<Rightarrow> ProwJobSpec \<Rightarrow> ProwJobSpec" where
  "set_RunAfterSuccess v (ProwJobSpec ty ag cl jb rf rp cx rc mc ps ras) =
     ProwJobSpec ty ag cl jb rf rp cx rc mc ps v"






subsection \<open>NewProwJob\<close>

text \<open>
  \<open>NewProwJob\<close> reads two things from outside: \<open>uuid.NewV1().String()\<close> and \<open>metav1.Now()\<close>.
  Both are arguments here (\<open>uuid\<close> and \<open>now\<close>). The literal leaves \<open>Annotations\<close> nil.
\<close>

definition NewProwJob ::
  "string \<Rightarrow> Time \<Rightarrow> ProwJobSpec \<Rightarrow> (string \<rightharpoonup> string) \<Rightarrow> ProwJob" where
  "NewProwJob uuid now spec labels =
     \<lparr>pj_APIVersion = ''prow.k8s.io/v1'',
      pj_Kind = ''ProwJob'',
      pj_ObjectMeta = \<lparr>om_Name = uuid, om_Labels = labels, om_Annotations = Map.empty\<rparr>,
      pj_Spec = spec,
      pj_Status = \<lparr>st_StartTime = now, st_State = TriggeredState\<rparr>\<rparr>"

subsection \<open>ProwJobToPod\<close>

text \<open>
  \<open>fmt.Sprintf("%s-%d", name, i)\<close> for an index \<open>i\<close> of a \<open>range\<close> loop, which is never
  negative: the name, a dash, and \<open>i\<close> in decimal without leading zeros.
\<close>

definition digit_char :: "nat \<Rightarrow> char" where
  "digit_char d = ''0123456789'' ! d"

function Itoa :: "nat \<Rightarrow> string" where
  "Itoa n = (if n < 10 then [digit_char n] else Itoa (n div 10) @ [digit_char (n mod 10)])"
  by pat_completeness auto
termination
  by (relation "measure id") auto

definition Sprintf_s_d :: "string \<Rightarrow> nat \<Rightarrow> string" where
  "Sprintf_s_d name i = name @ ''-'' @ Itoa i"


definition kubeEnv :: "string list \<Rightarrow> (string \<rightharpoonup> string) \<Rightarrow> EnvVar list" where
  "kubeEnv keys environment =
     concat (map (\<lambda>key. case environment key of
                          None \<Rightarrow> []
                        | Some val \<Rightarrow> [\<lparr>ev_Name = key, ev_Value = val\<rparr>]) keys)"

text \<open>
  Go's \<open>append(s, xs...)\<close> on a slice of \<open>v1.EnvVar\<close>. When the capacity of \<open>s\<close> has room for
  \<open>xs\<close>, the values are written into the backing array of \<open>s\<close>, right after its elements, and
  the result is \<open>s\<close> grown by their number: every slice whose elements lie in those cells sees
  the new values. Otherwise a new array is allocated that holds the elements of \<open>s\<close>, then
  \<open>xs\<close>, then as many spare cells as the runtime chooses (\<open>grow\<close> of the length needed), and the
  result is a slice on that array.
\<close>

definition write_cells :: "EnvVar list \<Rightarrow> nat \<Rightarrow> EnvVar list \<Rightarrow> EnvVar list" where
  "write_cells arr pos xs = take pos arr @ xs @ drop (pos + length xs) arr"

definition go_append :: "(nat \<Rightarrow> nat) \<Rightarrow> heap \<Rightarrow> slice \<Rightarrow> EnvVar list \<Rightarrow> heap \<times> slice" where
  "go_append grow h s xs =
     (if sl_len s + length xs \<le> sl_cap s
      then (h[sl_array s := write_cells (h ! sl_array s) (sl_off s + sl_len s) xs],
            s\<lparr>sl_len := sl_len s + length xs\<rparr>)
      else (h @ [slice_elems h s @ xs @ replicate (grow (sl_len s + length xs)) zero_EnvVar],
            \<lparr>sl_array = length h, sl_off = 0, sl_len = sl_len s + length xs,
             sl_cap = sl_len s + length xs + grow (sl_len s + length xs)\<rparr>))"

text \<open>
  The two loops of \<open>ProwJobToPod\<close> have the same body, once over the init containers and once
  over the containers:
  \<^verbatim>\<open>
  for i := range src {
      dst = append(dst, src[i])
      if dst[i].Name == "" { dst[i].Name = fmt.Sprintf("%s-%d", pj.ObjectMeta.Name, i) }
      dst[i].Env = append(dst[i].Env, kubeEnv(env)...)
  }\<close>
  \<open>copy_containers\<close> takes the elements of \<open>src\<close> from index \<open>i\<close> on, the index \<open>i\<close>, \<open>dst\<close> and
  the heap, and returns \<open>dst\<close> and the heap. \<open>dst\<close> starts empty and is the function's own, so
  it is a list; the copy \<open>dst[i]\<close> of a container has the \<open>Env\<close> slice of \<open>src[i]\<close>, on the same
  backing array. Each call of \<open>kubeEnv\<close> ranges over the map anew, so the order \<open>order i\<close> may
  differ from one container to the next.
\<close>

fun copy_containers ::
  "string \<Rightarrow> (string \<rightharpoonup> string) \<Rightarrow> (nat \<Rightarrow> string list) \<Rightarrow> (nat \<Rightarrow> nat) \<Rightarrow> Container list \<Rightarrow>
   nat \<Rightarrow> Container list \<Rightarrow> heap \<Rightarrow> Container list \<times> heap" where
  "copy_containers name env order grow [] i dst h = (dst, h)"
| "copy_containers name env order grow (c # rest) i dst h =
     (let dst = dst @ [c];
          dst = (if c_Name (dst ! i) = ''''
                 then dst[i := (dst ! i)\<lparr>c_Name := Sprintf_s_d name i\<rparr>]
                 else dst);
          (h, appended) = go_append grow h (c_Env (dst ! i)) (kubeEnv (order i) env);
          dst = dst[i := (dst ! i)\<lparr>c_Env := appended\<rparr>]
      in copy_containers name env order grow rest (Suc i) dst h)"

text \<open>
  Go's \<open>error\<close> is a message here, and a function with the results \<open>(x, error)\<close> returns a pair
  whose second component is \<open>None\<close> for a nil error. \<open>NewJobSpec\<close> and \<open>EnvForSpec\<close> are
  functions of this package outside the source at hand; \<open>ProwJobToPod\<close> takes them as
  arguments, with any type \<open>'js\<close> for the job spec that passes from one to the other.
  \<open>init_order\<close> and \<open>order\<close> are the iteration orders of \<open>kubeEnv\<close> in the two loops and \<open>grow\<close>
  is the runtime's choice of spare capacity. \<open>ProwJobToPod\<close> takes the heap and returns its
  two results together with the heap it leaves; the \<open>Env\<close> slices of the pod are read in
  that heap.
\<close>

type_synonym error = string

definition ProwJobToPod ::
  "kube_consts \<Rightarrow> (ProwJobSpec \<Rightarrow> string \<Rightarrow> string \<Rightarrow> 'js) \<Rightarrow>
   ('js \<Rightarrow> (string \<rightharpoonup> string) \<times> error option) \<Rightarrow>
   (nat \<Rightarrow> string list) \<Rightarrow> (nat \<Rightarrow> string list) \<Rightarrow> (nat \<Rightarrow> nat) \<Rightarrow> heap \<Rightarrow>
   ProwJob \<Rightarrow> string \<Rightarrow> (Pod option \<times> error option) \<times> heap" where
  "ProwJobToPod K NewJobSpec EnvForSpec init_order order grow h pj buildID =
     (let (env, err) = EnvForSpec (NewJobSpec (pj_Spec pj) buildID (om_Name (pj_ObjectMeta pj)))
      in if err \<noteq> None then ((None, err), h)
         else
           (let spec = pjs_PodSpec (pj_Spec pj);
                spec = spec\<lparr>ps_RestartPolicy := ''Never''\<rparr>;
                spec = spec\<lparr>ps_InitContainers := []\<rparr>;
                (initContainers, h) =
                   copy_containers (om_Name (pj_ObjectMeta pj)) env init_order grow
                     (ps_InitContainers (pjs_PodSpec (pj_Spec pj))) 0
                     (ps_InitContainers spec) h;
                spec = spec\<lparr>ps_InitContainers := initContainers\<rparr>;
                spec = spec\<lparr>ps_Containers := []\<rparr>;
                (containers, h) =
                   copy_containers (om_Name (pj_ObjectMeta pj)) env order grow
                     (ps_Containers (pjs_PodSpec (pj_Spec pj))) 0
                     (ps_Containers spec) h;
                spec = spec\<lparr>ps_Containers := containers\<rparr>;
                podLabels = Map.empty;
                podLabels = podLabels ++ om_Labels (pj_ObjectMeta pj);
                podLabels = podLabels(CreatedByProw K \<mapsto> ''true'');
                podLabels = podLabels(ProwJobTypeLabel K \<mapsto> pjs_Type (pj_Spec pj))
            in ((Some \<lparr>pod_ObjectMeta =
                         \<lparr>om_Name = om_Name (pj_ObjectMeta pj),
                          om_Labels = podLabels,
                          om_Annotations = [ProwJobAnnotation K \<mapsto> pjs_Job (pj_Spec pj)]\<rparr>,
                       pod_Spec = spec\<rparr>,
                 None), h)))"

subsection \<open>PartitionActive\<close>

text \<open>
  A buffered channel that nobody receives from: its capacity, the values sent so far and
  whether it is closed. A send to a full channel blocks for ever, since \<open>PartitionActive\<close>
  starts no receiver; a send to a closed channel and a second close panic.
\<close>

record 'a chan =
  ch_cap :: nat
  ch_buf :: "'a list"
  ch_closed :: bool

datatype chan_fault = BlocksForever | SendOnClosedChannel | CloseOfClosedChannel

definition make_chan :: "nat \<Rightarrow> 'a chan" where
  "make_chan n = \<lparr>ch_cap = n, ch_buf = [], ch_closed = False\<rparr>"

definition chan_send :: "'a chan \<Rightarrow> 'a \<Rightarrow> chan_fault + 'a chan" where
  "chan_send c x =
     (if ch_closed c then Inl SendOnClosedChannel
      else if length (ch_buf c) < ch_cap c then Inr (c\<lparr>ch_buf := ch_buf c @ [x]\<rparr>)
      else Inl BlocksForever)"

definition chan_close :: "'a chan \<Rightarrow> chan_fault + 'a chan" where
  "chan_close c = (if ch_closed c then Inl CloseOfClosedChannel else Inr (c\<lparr>ch_closed := True\<rparr>))"

text \<open>The first loop counts the pending and the triggered jobs.\<close>

fun count_active :: "ProwJob list \<Rightarrow> nat \<times> nat \<Rightarrow> nat \<times> nat" where
  "count_active [] (pendingCount, triggeredCount) = (pendingCount, triggeredCount)"
| "count_active (pj # rest) (pendingCount, triggeredCount) =
     (case st_State (pj_Status pj) of
        PendingState \<Rightarrow> count_active rest (pendingCount + 1, triggeredCount)
      | TriggeredState \<Rightarrow> count_active rest (pendingCount, triggeredCount + 1)
      | _ \<Rightarrow> count_active rest (pendingCount, triggeredCount))"

text \<open>The second loop sends each pending and each triggered job to its channel.\<close>

fun send_active ::
  "ProwJob list \<Rightarrow> ProwJob chan \<times> ProwJob chan \<Rightarrow> chan_fault + ProwJob chan \<times> ProwJob chan" where
  "send_active [] (pending, triggered) = Inr (pending, triggered)"
| "send_active (pj # rest) (pending, triggered) =
     (case st_State (pj_Status pj) of
        PendingState \<Rightarrow>
          (case chan_send pending pj of
             Inl f \<Rightarrow> Inl f
           | Inr pending' \<Rightarrow> send_active rest (pending', triggered))
      | TriggeredState \<Rightarrow>
          (case chan_send triggered pj of
             Inl f \<Rightarrow> Inl f
           | Inr triggered' \<Rightarrow> send_active rest (pending, triggered'))
      | _ \<Rightarrow> send_active rest (pending, triggered))"

definition PartitionActive ::
  "ProwJob list \<Rightarrow> chan_fault + ProwJob chan \<times> ProwJob chan" where
  "PartitionActive pjs =
     (let (pendingCount, triggeredCount) = count_active pjs (0, 0);
          pending = make_chan pendingCount;
          triggered = make_chan triggeredCount
      in case send_active pjs (pending, triggered) of
           Inl f \<Rightarrow> Inl f
         | Inr (pending, triggered) \<Rightarrow>
             (case chan_close pending of
                Inl f \<Rightarrow> Inl f
              | Inr pending \<Rightarrow>
                  (case chan_close triggered of
                     Inl f \<Rightarrow> Inl f
                   | Inr triggered \<Rightarrow> Inr (pending, triggered))))"

subsection \<open>GetLatestProwJobs\<close>

text \<open>
  \<open>latestJobs[name].Status.StartTime.Time\<close>: indexing a Go map with a key it does not hold
  gives the zero value of \<open>kube.ProwJob\<close>, whose start time is the zero \<open>Time\<close>.
\<close>

definition index_StartTime :: "(string \<rightharpoonup> ProwJob) \<Rightarrow> string \<Rightarrow> Time" where
  "index_StartTime latestJobs name =
     (case latestJobs name of None \<Rightarrow> zero_Time | Some j \<Rightarrow> st_StartTime (pj_Status j))"

fun latest_loop ::
  "ProwJob list \<Rightarrow> ProwJobType \<Rightarrow> (string \<rightharpoonup> ProwJob) \<Rightarrow> (string \<rightharpoonup> ProwJob)" where
  "latest_loop [] jobType latestJobs = latestJobs"
| "latest_loop (j # rest) jobType latestJobs =
     (if pjs_Type (pj_Spec j) \<noteq> jobType then latest_loop rest jobType latestJobs
      else
        (let name = pjs_Job (pj_Spec j)
         in if After (st_StartTime (pj_Status j)) (index_StartTime latestJobs name)
            then latest_loop rest jobType (latestJobs(name \<mapsto> j))
            else latest_loop rest jobType latestJobs))"

definition GetLatestProwJobs :: "ProwJob list \<Rightarrow> ProwJobType \<Rightarrow> (string \<rightharpoonup> ProwJob)" where
  "GetLatestProwJobs pjs jobType = latest_loop pjs jobType Map.empty"

subsection \<open>Example records\<close>

text \<open>A job spec and job records with a given name, start time, state, type and job.\<close>

definition ex_spec :: "ProwJobType \<Rightarrow> string \<Rightarrow> ProwJobSpec" where
  "ex_spec ty job = ProwJobSpec ty ''jenkins'' '''' job zero_Refs True '''' '''' 0 zero_PodSpec []"

definition ex_job :: "string \<Rightarrow> Time \<Rightarrow> ProwJobState \<Rightarrow> ProwJobSpec \<Rightarrow> ProwJob" where
  "ex_job name t st spec =
     \<lparr>pj_APIVersion = ''prow.k8s.io/v1'',
      pj_Kind = ''ProwJob'',
      pj_ObjectMeta = \<lparr>om_Name = name, om_Labels = Map.empty, om_Annotations = Map.empty\<rparr>,
      pj_Spec = spec,
      pj_Status = \<lparr>st_StartTime = t, st_State = st\<rparr>\<rparr>"

text \<open>Values for the constants of package \<open>kube\<close>, for the examples.\<close>

definition ex_K :: kube_consts where
  "ex_K = \<lparr>PresubmitJob = ''presubmit'', PostsubmitJob = ''postsubmit'',
           PeriodicJob = ''periodic'', BatchJob = ''batch'',
           KubernetesAgent = ''kubernetes'', DefaultClusterAlias = ''default'',
           CreatedByProw = ''created-by-prow'', ProwJobTypeLabel = ''prow.k8s.io/type'',
           ProwJobAnnotation = ''prow.k8s.io/job''\<rparr>"

text \<open>
  A pod template with an unnamed and a named container and an unnamed init container. The
  unnamed ones have a nil \<open>Env\<close>; the named one has one environment variable, in an array of
  its own with room for two more. \<open>ex_heap\<close> holds that array.
\<close>

definition ex_PodSpec :: PodSpec where
  "ex_PodSpec =
     \<lparr>ps_RestartPolicy = ''Always'',
      ps_InitContainers = [\<lparr>c_Name = '''', c_Env = nil_slice\<rparr>],
      ps_Containers =
        [\<lparr>c_Name = '''', c_Env = nil_slice\<rparr>,
         \<lparr>c_Name = ''x'', c_Env = \<lparr>sl_array = 0, sl_off = 0, sl_len = 1, sl_cap = 3\<rparr>\<rparr>]\<rparr>"

definition ex_heap :: heap where
  "ex_heap = [[\<lparr>ev_Name = ''HOME'', ev_Value = ''/root''\<rparr>, zero_EnvVar, zero_EnvVar]]"



definition ex_refs :: Refs where
  "ex_refs = \<lparr>refs_Org = ''kubernetes'', refs_Repo = ''test-infra'', refs_BaseRef = ''master'',
             refs_Pulls = [\<lparr>pull_Number = 7\<rparr>]\<rparr>"






text \<open>
  Stand-ins for \<open>NewJobSpec\<close> and \<open>EnvForSpec\<close>: the job spec is the triple of its arguments,
  and the environment holds the build identifier and the job name. \<open>ex_EnvForSpec_fails\<close>
  always returns an error.
\<close>

definition ex_NewJobSpec :: "ProwJobSpec \<Rightarrow> string \<Rightarrow> string \<Rightarrow> ProwJobSpec \<times> string \<times> string" where
  "ex_NewJobSpec spec buildID name = (spec, buildID, name)"

definition ex_EnvForSpec ::
  "ProwJobSpec \<times> string \<times> string \<Rightarrow> (string \<rightharpoonup> string) \<times> error option" where
  "ex_EnvForSpec js =
     ([''BUILD_ID'' \<mapsto> fst (snd js), ''JOB_NAME'' \<mapsto> pjs_Job (fst js)], None)"

definition ex_EnvForSpec_fails ::
  "ProwJobSpec \<times> string \<times> string \<Rightarrow> (string \<rightharpoonup> string) \<times> error option" where
  "ex_EnvForSpec_fails js = (Map.empty, Some ''no environment'')"

text \<open>Two iteration orders of the example environment, and a choice of spare capacity.\<close>

definition ex_order :: "nat \<Rightarrow> string list" where
  "ex_order i = [''BUILD_ID'', ''JOB_NAME'']"


definition ex_grow :: "nat \<Rightarrow> nat" where
  "ex_grow n = 1"

text \<open>
  A record of a presubmit job with the example pod template and a label, and one with the
  pod template whose containers share an array.
\<close>

definition ex_pod_job :: ProwJob where
  "ex_pod_job =
     \<lparr>pj_APIVersion = ''prow.k8s.io/v1'',
      pj_Kind = ''ProwJob'',
      pj_ObjectMeta =
        \<lparr>om_Name = ''pj'', om_Labels = [''team'' \<mapsto> ''infra''], om_Annotations = Map.empty\<rparr>,
      pj_Spec =
        ProwJobSpec ''presubmit'' ''kubernetes'' ''default'' ''foo'' ex_refs True '''' '''' 0
          ex_PodSpec [],
      pj_Status = \<lparr>st_StartTime = 5, st_State = TriggeredState\<rparr>\<rparr>"





subsection \<open>Notions used in the properties\<close>













text \<open>
  What the loop of \<open>GetLatestProwJobs\<close> does to the entry of one job name, given the entry
  \<open>cur\<close> so far.
\<close>

definition candidate :: "ProwJobType \<Rightarrow> string \<Rightarrow> ProwJob \<Rightarrow> bool" where
  "candidate jobType name j = (pjs_Type (pj_Spec j) = jobType \<and> pjs_Job (pj_Spec j) = name)"

fun latest_for ::
  "ProwJob list \<Rightarrow> ProwJobType \<Rightarrow> string \<Rightarrow> ProwJob option \<Rightarrow> ProwJob option" where
  "latest_for [] jobType name cur = cur"
| "latest_for (j # rest) jobType name cur =
     (if candidate jobType name j \<and>
         (case cur of None \<Rightarrow> zero_Time | Some h \<Rightarrow> st_StartTime (pj_Status h))
           < st_StartTime (pj_Status j)
      then latest_for rest jobType name (Some j)
      else latest_for rest jobType name cur)"


section \<open>Properties\<close>

subsection \<open>NewProwJob\<close>

text \<open>
  C9. Whatever the identifier, the time of creation, the spec and the labels, the record that
  \<open>NewProwJob\<close> returns is in state Triggered and carries the time of creation as its start
  time; a record fresh from \<open>NewProwJob\<close> has no other state.
\<close>

theorem NewProwJob_Triggered:
  "st_State (pj_Status (NewProwJob uuid now spec labels)) = TriggeredState \<and>
   st_StartTime (pj_Status (NewProwJob uuid now spec labels)) = now"
  by (simp add: NewProwJob_def)

subsection \<open>PartitionActive\<close>

lemma count_active_eq:
  "count_active pjs (pc, tc) =
     (pc + length (filter (\<lambda>pj. st_State (pj_Status pj) = PendingState) pjs),
      tc + length (filter (\<lambda>pj. st_State (pj_Status pj) = TriggeredState) pjs))"
  by (induction pjs arbitrary: pc tc) (auto split: ProwJobState.splits)

text \<open>With room for all that is still to come, no send blocks.\<close>

lemma send_active_eq:
  "\<not> ch_closed p \<Longrightarrow> \<not> ch_closed t \<Longrightarrow>
   length (ch_buf p) + length (filter (\<lambda>pj. st_State (pj_Status pj) = PendingState) pjs)
     \<le> ch_cap p \<Longrightarrow>
   length (ch_buf t) + length (filter (\<lambda>pj. st_State (pj_Status pj) = TriggeredState) pjs)
     \<le> ch_cap t \<Longrightarrow>
   send_active pjs (p, t) =
     Inr (p\<lparr>ch_buf := ch_buf p @ filter (\<lambda>pj. st_State (pj_Status pj) = PendingState) pjs\<rparr>,
          t\<lparr>ch_buf := ch_buf t @ filter (\<lambda>pj. st_State (pj_Status pj) = TriggeredState) pjs\<rparr>)"
proof (induction pjs arbitrary: p t)
  case Nil
  then show ?case by simp
next
  case (Cons pj pjs)
  show ?case
  proof (cases "st_State (pj_Status pj)")
    case PendingState
    let ?p = "p\<lparr>ch_buf := ch_buf p @ [pj]\<rparr>"
    from PendingState Cons.prems have s: "chan_send p pj = Inr ?p"
      by (simp add: chan_send_def)
    have "send_active pjs (?p, t) =
       Inr (?p\<lparr>ch_buf := ch_buf ?p @ filter (\<lambda>pj. st_State (pj_Status pj) = PendingState) pjs\<rparr>,
            t\<lparr>ch_buf := ch_buf t @ filter (\<lambda>pj. st_State (pj_Status pj) = TriggeredState) pjs\<rparr>)"
      using Cons.prems PendingState by (intro Cons.IH) simp_all
    then show ?thesis using PendingState s by simp
  next
    case TriggeredState
    let ?t = "t\<lparr>ch_buf := ch_buf t @ [pj]\<rparr>"
    from TriggeredState Cons.prems have s: "chan_send t pj = Inr ?t"
      by (simp add: chan_send_def)
    have "send_active pjs (p, ?t) =
       Inr (p\<lparr>ch_buf := ch_buf p @ filter (\<lambda>pj. st_State (pj_Status pj) = PendingState) pjs\<rparr>,
            ?t\<lparr>ch_buf := ch_buf ?t @ filter (\<lambda>pj. st_State (pj_Status pj) = TriggeredState) pjs\<rparr>)"
      using Cons.prems TriggeredState by (intro Cons.IH) simp_all
    then show ?thesis using TriggeredState s by simp
  qed (use Cons in simp_all)
qed

text \<open>
  C4. For every list of records \<open>PartitionActive\<close> returns (no send blocks and nothing
  panics) two closed channels. The pending channel holds exactly the records in state Pending,
  the triggered channel exactly those in state Triggered, each in the order of the input; the
  capacity of each channel is the number of records it holds; and a record in state Success,
  Failure, Aborted or Error is in neither.
\<close>

theorem PartitionActive_groups:
  "\<exists>pending triggered.
     PartitionActive pjs = Inr (pending, triggered) \<and>
     ch_buf pending = filter (\<lambda>pj. st_State (pj_Status pj) = PendingState) pjs \<and>
     ch_buf triggered = filter (\<lambda>pj. st_State (pj_Status pj) = TriggeredState) pjs \<and>
     ch_cap pending = length (ch_buf pending) \<and>
     ch_cap triggered = length (ch_buf triggered) \<and>
     ch_closed pending \<and> ch_closed triggered \<and>
     (\<forall>pj \<in> set pjs.
        st_State (pj_Status pj) \<in> {SuccessState, FailureState, AbortedState, ErrorState} \<longrightarrow>
        pj \<notin> set (ch_buf pending) \<and> pj \<notin> set (ch_buf triggered))"
proof -
  let ?P = "filter (\<lambda>pj. st_State (pj_Status pj) = PendingState) pjs"
  let ?T = "filter (\<lambda>pj. st_State (pj_Status pj) = TriggeredState) pjs"
  have c: "count_active pjs (0, 0) = (length ?P, length ?T)"
    by (simp add: count_active_eq)
  have s: "send_active pjs (make_chan (length ?P), make_chan (length ?T)) =
      Inr (\<lparr>ch_cap = length ?P, ch_buf = ?P, ch_closed = False\<rparr>,
           \<lparr>ch_cap = length ?T, ch_buf = ?T, ch_closed = False\<rparr>)"
    by (subst send_active_eq) (simp_all add: make_chan_def)
  have "PartitionActive pjs =
      Inr (\<lparr>ch_cap = length ?P, ch_buf = ?P, ch_closed = True\<rparr>,
           \<lparr>ch_cap = length ?T, ch_buf = ?T, ch_closed = True\<rparr>)"
    by (simp add: PartitionActive_def c s chan_close_def)
  then show ?thesis by auto
qed

text \<open>
  The spec's example: records in the states Pending, Triggered, Success, Pending give a
  pending channel of two records and a triggered channel of one, without the third record.
\<close>

theorem PartitionActive_groups_witness:
  "PartitionActive
     [ex_job ''a'' 1 PendingState (ex_spec ''presubmit'' ''foo''),
      ex_job ''b'' 2 TriggeredState (ex_spec ''presubmit'' ''foo''),
      ex_job ''c'' 3 SuccessState (ex_spec ''presubmit'' ''foo''),
      ex_job ''d'' 4 PendingState (ex_spec ''presubmit'' ''foo'')] =
   Inr (\<lparr>ch_cap = 2,
         ch_buf = [ex_job ''a'' 1 PendingState (ex_spec ''presubmit'' ''foo''),
                   ex_job ''d'' 4 PendingState (ex_spec ''presubmit'' ''foo'')],
         ch_closed = True\<rparr>,
        \<lparr>ch_cap = 1,
         ch_buf = [ex_job ''b'' 2 TriggeredState (ex_spec ''presubmit'' ''foo'')],
         ch_closed = True\<rparr>) \<and>
   st_State (pj_Status (ex_job ''c'' 3 SuccessState (ex_spec ''presubmit'' ''foo'')))
     \<in> {SuccessState, FailureState, AbortedState, ErrorState} \<and>
   ex_job ''c'' 3 SuccessState (ex_spec ''presubmit'' ''foo'') \<notin>
     set [ex_job ''a'' 1 PendingState (ex_spec ''presubmit'' ''foo''),
          ex_job ''d'' 4 PendingState (ex_spec ''presubmit'' ''foo'')] \<and>
   ex_job ''c'' 3 SuccessState (ex_spec ''presubmit'' ''foo'') \<notin>
     set [ex_job ''b'' 2 TriggeredState (ex_spec ''presubmit'' ''foo'')]"
  using PartitionActive_groups
    [of "[ex_job ''a'' 1 PendingState (ex_spec ''presubmit'' ''foo''),
          ex_job ''b'' 2 TriggeredState (ex_spec ''presubmit'' ''foo''),
          ex_job ''c'' 3 SuccessState (ex_spec ''presubmit'' ''foo''),
          ex_job ''d'' 4 PendingState (ex_spec ''presubmit'' ''foo'')]"]
  by (auto simp: ex_job_def)

subsection \<open>GetLatestProwJobs\<close>

text \<open>The loop treats every job name on its own.\<close>

lemma latest_loop_key:
  "latest_loop pjs jobType m name = latest_for pjs jobType name (m name)"
  by (induction pjs arbitrary: m)
    (auto simp: Let_def After_def index_StartTime_def candidate_def)

text \<open>
  No entry at the end: there was none at the start, and no candidate started after the
  zero time.
\<close>

lemma latest_for_None:
  "latest_for pjs jobType name cur = None \<longleftrightarrow>
     cur = None \<and> (\<forall>j \<in> set pjs. candidate jobType name j \<longrightarrow> st_StartTime (pj_Status j) \<le> zero_Time)"
  by (induction pjs arbitrary: cur) auto

text \<open>
  An entry at the end is either the entry at the start, which no candidate of the list
  beats, or a candidate of the list that beats the entry at the start and every candidate
  before it, and that no candidate after it beats.
\<close>

lemma latest_for_Some:
  "latest_for pjs jobType name cur = Some r \<Longrightarrow>
     (cur = Some r \<and>
        (\<forall>j \<in> set pjs. candidate jobType name j \<longrightarrow> st_StartTime (pj_Status j) \<le> st_StartTime (pj_Status r))) \<or>
     (\<exists>before after. pjs = before @ r # after \<and> candidate jobType name r \<and>
        (case cur of None \<Rightarrow> zero_Time | Some h \<Rightarrow> st_StartTime (pj_Status h)) < st_StartTime (pj_Status r) \<and>
        (\<forall>j \<in> set before. candidate jobType name j \<longrightarrow> st_StartTime (pj_Status j) < st_StartTime (pj_Status r)) \<and>
        (\<forall>j \<in> set after. candidate jobType name j \<longrightarrow> st_StartTime (pj_Status j) \<le> st_StartTime (pj_Status r)))"
proof (induction pjs arbitrary: cur)
  case Nil
  then show ?case by simp
next
  case (Cons j pjs)
  let ?st = "\<lambda>c. case c of None \<Rightarrow> zero_Time | Some h \<Rightarrow> st_StartTime (pj_Status h)"
  show ?case
  proof (cases "candidate jobType name j \<and> ?st cur < st_StartTime (pj_Status j)")
    case True
    with Cons.prems have "latest_for pjs jobType name (Some j) = Some r"
      by simp
    from Cons.IH[OF this] show ?thesis
    proof (elim disjE conjE exE)
      assume "Some j = Some r" and le: "\<forall>j \<in> set pjs. candidate jobType name j \<longrightarrow> st_StartTime (pj_Status j) \<le> st_StartTime (pj_Status r)"
      then have "j = r" by simp
      with True le have "j # pjs = [] @ r # pjs \<and> candidate jobType name r \<and>
        ?st cur < st_StartTime (pj_Status r) \<and>
        (\<forall>j \<in> set []. candidate jobType name j \<longrightarrow> st_StartTime (pj_Status j) < st_StartTime (pj_Status r)) \<and>
        (\<forall>j \<in> set pjs. candidate jobType name j \<longrightarrow> st_StartTime (pj_Status j) \<le> st_StartTime (pj_Status r))"
        by simp
      then show ?thesis by blast
    next
      fix before after
      assume a: "pjs = before @ r # after" "candidate jobType name r"
        "?st (Some j) < st_StartTime (pj_Status r)"
        "\<forall>j \<in> set before. candidate jobType name j \<longrightarrow> st_StartTime (pj_Status j) < st_StartTime (pj_Status r)"
        "\<forall>j \<in> set after. candidate jobType name j \<longrightarrow> st_StartTime (pj_Status j) \<le> st_StartTime (pj_Status r)"
      with True have "j # pjs = (j # before) @ r # after \<and> candidate jobType name r \<and>
        ?st cur < st_StartTime (pj_Status r) \<and>
        (\<forall>j \<in> set (j # before). candidate jobType name j \<longrightarrow> st_StartTime (pj_Status j) < st_StartTime (pj_Status r)) \<and>
        (\<forall>j \<in> set after. candidate jobType name j \<longrightarrow> st_StartTime (pj_Status j) \<le> st_StartTime (pj_Status r))"
        by simp
      then show ?thesis by blast
    qed
  next
    case False
    with Cons.prems have "latest_for pjs jobType name cur = Some r"
      by (auto split: if_splits)
    from Cons.IH[OF this] show ?thesis
    proof (elim disjE conjE exE)
      assume c: "cur = Some r" and le: "\<forall>j \<in> set pjs. candidate jobType name j \<longrightarrow> st_StartTime (pj_Status j) \<le> st_StartTime (pj_Status r)"
      with False have "candidate jobType name j \<longrightarrow> st_StartTime (pj_Status j) \<le> st_StartTime (pj_Status r)"
        by auto
      with c le show ?thesis by simp
    next
      fix before after
      assume a: "pjs = before @ r # after" "candidate jobType name r"
        "?st cur < st_StartTime (pj_Status r)"
        "\<forall>j \<in> set before. candidate jobType name j \<longrightarrow> st_StartTime (pj_Status j) < st_StartTime (pj_Status r)"
        "\<forall>j \<in> set after. candidate jobType name j \<longrightarrow> st_StartTime (pj_Status j) \<le> st_StartTime (pj_Status r)"
      with False have "j # pjs = (j # before) @ r # after \<and> candidate jobType name r \<and>
        ?st cur < st_StartTime (pj_Status r) \<and>
        (\<forall>j \<in> set (j # before). candidate jobType name j \<longrightarrow> st_StartTime (pj_Status j) < st_StartTime (pj_Status r)) \<and>
        (\<forall>j \<in> set after. candidate jobType name j \<longrightarrow> st_StartTime (pj_Status j) \<le> st_StartTime (pj_Status r))"
        by auto
      then show ?thesis by blast
    qed
  qed
qed

text \<open>
  C5, as the code has it. For every list of records, job type and job name: the mapping has
  no entry for the name iff no record of that type and name starts strictly after the zero
  time (so a name that the filtered input lacks is absent); and an entry \<open>r\<close> for the name is
  a record of the input with that type and name, which starts strictly after every record of
  that type and name before it in the input, and which no record of that type and name
  after it in the input starts after. So \<open>r\<close> has the greatest start time of its name, and
  it is the first record with that time.
\<close>

theorem GetLatestProwJobs_latest:
  "(GetLatestProwJobs pjs jobType name = None \<longleftrightarrow>
      (\<forall>j \<in> set pjs. pjs_Type (pj_Spec j) = jobType \<and> pjs_Job (pj_Spec j) = name \<longrightarrow>
         \<not> After (st_StartTime (pj_Status j)) zero_Time)) \<and>
   (\<forall>r. GetLatestProwJobs pjs jobType name = Some r \<longrightarrow>
      pjs_Type (pj_Spec r) = jobType \<and> pjs_Job (pj_Spec r) = name \<and>
      (\<exists>before after. pjs = before @ r # after \<and>
         (\<forall>j \<in> set before. pjs_Type (pj_Spec j) = jobType \<and> pjs_Job (pj_Spec j) = name \<longrightarrow>
            After (st_StartTime (pj_Status r)) (st_StartTime (pj_Status j))) \<and>
         (\<forall>j \<in> set after. pjs_Type (pj_Spec j) = jobType \<and> pjs_Job (pj_Spec j) = name \<longrightarrow>
            \<not> After (st_StartTime (pj_Status j)) (st_StartTime (pj_Status r)))))"
proof (intro conjI allI impI)
  show "GetLatestProwJobs pjs jobType name = None \<longleftrightarrow>
      (\<forall>j \<in> set pjs. pjs_Type (pj_Spec j) = jobType \<and> pjs_Job (pj_Spec j) = name \<longrightarrow>
         \<not> After (st_StartTime (pj_Status j)) zero_Time)"
    by (simp add: GetLatestProwJobs_def latest_loop_key latest_for_None candidate_def After_def
        not_less)
next
  fix r assume "GetLatestProwJobs pjs jobType name = Some r"
  then have "latest_for pjs jobType name None = Some r"
    by (simp add: GetLatestProwJobs_def latest_loop_key)
  from latest_for_Some[OF this]
  obtain before after where "pjs = before @ r # after" "candidate jobType name r"
        "(\<forall>j \<in> set before. candidate jobType name j \<longrightarrow> st_StartTime (pj_Status j) < st_StartTime (pj_Status r))"
        "(\<forall>j \<in> set after. candidate jobType name j \<longrightarrow> st_StartTime (pj_Status j) \<le> st_StartTime (pj_Status r))"
    by auto
  then show "pjs_Type (pj_Spec r) = jobType" "pjs_Job (pj_Spec r) = name"
    "(\<exists>before after. pjs = before @ r # after \<and>
         (\<forall>j \<in> set before. pjs_Type (pj_Spec j) = jobType \<and> pjs_Job (pj_Spec j) = name \<longrightarrow>
            After (st_StartTime (pj_Status r)) (st_StartTime (pj_Status j))) \<and>
         (\<forall>j \<in> set after. pjs_Type (pj_Spec j) = jobType \<and> pjs_Job (pj_Spec j) = name \<longrightarrow>
            \<not> After (st_StartTime (pj_Status j)) (st_StartTime (pj_Status r))))"
    by (auto simp: candidate_def After_def not_less)
qed

text \<open>
  The spec's example with a tie added: of the presubmit records of \<open>foo\<close> at the times 1, 2
  and 2 the first one at time 2 is kept, and the postsubmit job \<open>bar\<close> has no entry.
\<close>

theorem GetLatestProwJobs_latest_witness:
  "GetLatestProwJobs
     [ex_job ''a'' 1 SuccessState (ex_spec ''presubmit'' ''foo''),
      ex_job ''b'' 2 SuccessState (ex_spec ''presubmit'' ''foo''),
      ex_job ''c'' 2 FailureState (ex_spec ''presubmit'' ''foo''),
      ex_job ''d'' 3 SuccessState (ex_spec ''postsubmit'' ''bar'')] ''presubmit'' ''foo''
     = Some (ex_job ''b'' 2 SuccessState (ex_spec ''presubmit'' ''foo'')) \<and>
   GetLatestProwJobs
     [ex_job ''a'' 1 SuccessState (ex_spec ''presubmit'' ''foo''),
      ex_job ''b'' 2 SuccessState (ex_spec ''presubmit'' ''foo''),
      ex_job ''c'' 2 FailureState (ex_spec ''presubmit'' ''foo''),
      ex_job ''d'' 3 SuccessState (ex_spec ''postsubmit'' ''bar'')] ''presubmit'' ''bar''
     = None \<and>
   (\<exists>before after.
      [ex_job ''a'' 1 SuccessState (ex_spec ''presubmit'' ''foo''),
       ex_job ''b'' 2 SuccessState (ex_spec ''presubmit'' ''foo''),
       ex_job ''c'' 2 FailureState (ex_spec ''presubmit'' ''foo''),
       ex_job ''d'' 3 SuccessState (ex_spec ''postsubmit'' ''bar'')]
        = before @ ex_job ''b'' 2 SuccessState (ex_spec ''presubmit'' ''foo'') # after \<and>
      (\<forall>j \<in> set before. pjs_Type (pj_Spec j) = ''presubmit'' \<and> pjs_Job (pj_Spec j) = ''foo'' \<longrightarrow>
         After 2 (st_StartTime (pj_Status j))) \<and>
      (\<forall>j \<in> set after. pjs_Type (pj_Spec j) = ''presubmit'' \<and> pjs_Job (pj_Spec j) = ''foo'' \<longrightarrow>
         \<not> After (st_StartTime (pj_Status j)) 2))"
proof -
  let ?pjs = "[ex_job ''a'' 1 SuccessState (ex_spec ''presubmit'' ''foo''),
      ex_job ''b'' 2 SuccessState (ex_spec ''presubmit'' ''foo''),
      ex_job ''c'' 2 FailureState (ex_spec ''presubmit'' ''foo''),
      ex_job ''d'' 3 SuccessState (ex_spec ''postsubmit'' ''bar'')]"
  let ?b = "ex_job ''b'' 2 SuccessState (ex_spec ''presubmit'' ''foo'')"
  have foo: "GetLatestProwJobs ?pjs ''presubmit'' ''foo'' = Some ?b"
    by (simp add: GetLatestProwJobs_def ex_job_def ex_spec_def index_StartTime_def After_def
        zero_Time_def Let_def)
  have t: "st_StartTime (pj_Status ?b) = 2"
    by (simp add: ex_job_def)
  have bar: "\<forall>j \<in> set ?pjs. pjs_Type (pj_Spec j) = ''presubmit'' \<and> pjs_Job (pj_Spec j) = ''bar'' \<longrightarrow>
         \<not> After (st_StartTime (pj_Status j)) zero_Time"
    by (simp add: ex_job_def ex_spec_def)
  from GetLatestProwJobs_latest[of ?pjs "''presubmit''" "''bar''"] bar
  have "GetLatestProwJobs ?pjs ''presubmit'' ''bar'' = None"
    by blast
  moreover from GetLatestProwJobs_latest[of ?pjs "''presubmit''" "''foo''"] foo
  have "\<exists>before after. ?pjs = before @ ?b # after \<and>
      (\<forall>j \<in> set before. pjs_Type (pj_Spec j) = ''presubmit'' \<and> pjs_Job (pj_Spec j) = ''foo'' \<longrightarrow>
         After (st_StartTime (pj_Status ?b)) (st_StartTime (pj_Status j))) \<and>
      (\<forall>j \<in> set after. pjs_Type (pj_Spec j) = ''presubmit'' \<and> pjs_Job (pj_Spec j) = ''foo'' \<longrightarrow>
         \<not> After (st_StartTime (pj_Status j)) (st_StartTime (pj_Status ?b)))"
    by blast
  ultimately show ?thesis using foo unfolding t by blast
qed

text \<open>
  C5 as stated fails: the only presubmit record of the job \<open>foo\<close> has the greatest start time
  of its name, and the mapping does not keep it, since that time is the zero time.
\<close>

theorem GetLatestProwJobs_drops_zero_time:
  "pjs_Type (pj_Spec (ex_job ''a'' 0 SuccessState (ex_spec ''presubmit'' ''foo''))) = ''presubmit'' \<and>
   pjs_Job (pj_Spec (ex_job ''a'' 0 SuccessState (ex_spec ''presubmit'' ''foo''))) = ''foo'' \<and>
   GetLatestProwJobs [ex_job ''a'' 0 SuccessState (ex_spec ''presubmit'' ''foo'')]
     ''presubmit'' ''foo'' = None"
  by (simp add: GetLatestProwJobs_def ex_job_def ex_spec_def index_StartTime_def After_def
      zero_Time_def)

text \<open>
  C10. A record whose start time is not strictly after the zero time is the entry of no
  job name, whatever the input; and when it is the only record of the requested type for its
  job name, that name has no entry at all.
\<close>

theorem GetLatestProwJobs_zero_time:
  "\<not> After (st_StartTime (pj_Status r)) zero_Time \<Longrightarrow>
     GetLatestProwJobs pjs jobType name \<noteq> Some r \<and>
     ((\<forall>j \<in> set pjs. pjs_Type (pj_Spec j) = jobType \<and>
          pjs_Job (pj_Spec j) = pjs_Job (pj_Spec r) \<longrightarrow> j = r) \<longrightarrow>
      GetLatestProwJobs pjs jobType (pjs_Job (pj_Spec r)) = None)"
proof
  assume z: "\<not> After (st_StartTime (pj_Status r)) zero_Time"
  show "GetLatestProwJobs pjs jobType name \<noteq> Some r"
  proof
    assume "GetLatestProwJobs pjs jobType name = Some r"
    then have "latest_for pjs jobType name None = Some r"
      by (simp add: GetLatestProwJobs_def latest_loop_key)
    from latest_for_Some[OF this] have "zero_Time < st_StartTime (pj_Status r)"
      by auto
    with z show False by (simp add: After_def)
  qed
  from z show "(\<forall>j \<in> set pjs. pjs_Type (pj_Spec j) = jobType \<and>
          pjs_Job (pj_Spec j) = pjs_Job (pj_Spec r) \<longrightarrow> j = r) \<longrightarrow>
      GetLatestProwJobs pjs jobType (pjs_Job (pj_Spec r)) = None"
    by (auto simp: GetLatestProwJobs_def latest_loop_key latest_for_None candidate_def
        After_def)
qed

text \<open>A periodic job whose only record has the zero time as its start time.\<close>

theorem GetLatestProwJobs_zero_time_witness:
  "\<not> After (st_StartTime (pj_Status (ex_job ''z'' 0 PendingState (ex_spec ''periodic'' ''nightly''))))
       zero_Time \<and>
   GetLatestProwJobs
     [ex_job ''z'' 0 PendingState (ex_spec ''periodic'' ''nightly''),
      ex_job ''y'' 9 PendingState (ex_spec ''periodic'' ''hourly'')] ''periodic'' ''nightly''
     \<noteq> Some (ex_job ''z'' 0 PendingState (ex_spec ''periodic'' ''nightly'')) \<and>
   GetLatestProwJobs
     [ex_job ''z'' 0 PendingState (ex_spec ''periodic'' ''nightly''),
      ex_job ''y'' 9 PendingState (ex_spec ''periodic'' ''hourly'')] ''periodic'' ''nightly''
     = None"
proof -
  have z: "\<not> After (st_StartTime (pj_Status (ex_job ''z'' 0 PendingState (ex_spec ''periodic'' ''nightly''))))
       zero_Time"
    by (simp add: After_def zero_Time_def ex_job_def)
  have o: "\<forall>j \<in> set [ex_job ''z'' 0 PendingState (ex_spec ''periodic'' ''nightly''),
      ex_job ''y'' 9 PendingState (ex_spec ''periodic'' ''hourly'')].
      pjs_Type (pj_Spec j) = ''periodic'' \<and>
      pjs_Job (pj_Spec j) =
        pjs_Job (pj_Spec (ex_job ''z'' 0 PendingState (ex_spec ''periodic'' ''nightly''))) \<longrightarrow>
      j = ex_job ''z'' 0 PendingState (ex_spec ''periodic'' ''nightly'')"
    by (simp add: ex_job_def ex_spec_def)
  have n: "pjs_Job (pj_Spec (ex_job ''z'' 0 PendingState (ex_spec ''periodic'' ''nightly'')))
      = ''nightly''"
    by (simp add: ex_job_def ex_spec_def)
  from GetLatestProwJobs_zero_time[OF z,
      of "[ex_job ''z'' 0 PendingState (ex_spec ''periodic'' ''nightly''),
           ex_job ''y'' 9 PendingState (ex_spec ''periodic'' ''hourly'')]" "''periodic''" "''nightly''"]
    z o n
  show ?thesis by simp
qed

subsection \<open>The spec builders\<close>



lemma set_RunAfterSuccess_sel [simp]:
  "pjs_RunAfterSuccess (set_RunAfterSuccess v s) = v"
  "pjs_Job (set_RunAfterSuccess v s) = pjs_Job s"
  "pjs_Refs (set_RunAfterSuccess v s) = pjs_Refs s"
  "pjs_Agent (set_RunAfterSuccess v s) = pjs_Agent s"
  "pjs_Cluster (set_RunAfterSuccess v s) = pjs_Cluster s"
  "pjs_PodSpec (set_RunAfterSuccess v s) = pjs_PodSpec s"
  by (cases s; simp)+

lemma set_RunAfterSuccess_twice [simp]:
  "set_RunAfterSuccess v (set_RunAfterSuccess w s) = set_RunAfterSuccess v s"
  by (cases s) simp








































subsection \<open>ProwJobToPod\<close>

declare Itoa.simps [simp del]























text \<open>The two ways out of \<open>ProwJobToPod\<close>.\<close>

lemma ProwJobToPod_error:
  "EnvForSpec (NewJobSpec (pj_Spec pj) buildID (om_Name (pj_ObjectMeta pj))) = (env, Some e) \<Longrightarrow>
   ProwJobToPod K NewJobSpec EnvForSpec init_order order grow h pj buildID = ((None, Some e), h)"
  by (simp add: ProwJobToPod_def)

lemma ProwJobToPod_success:
  "EnvForSpec (NewJobSpec (pj_Spec pj) buildID (om_Name (pj_ObjectMeta pj))) = (env, None) \<Longrightarrow>
   copy_containers (om_Name (pj_ObjectMeta pj)) env init_order grow
     (ps_InitContainers (pjs_PodSpec (pj_Spec pj))) 0 [] h = (initContainers, h1) \<Longrightarrow>
   copy_containers (om_Name (pj_ObjectMeta pj)) env order grow
     (ps_Containers (pjs_PodSpec (pj_Spec pj))) 0 [] h1 = (containers, h2) \<Longrightarrow>
   ProwJobToPod K NewJobSpec EnvForSpec init_order order grow h pj buildID =
     ((Some \<lparr>pod_ObjectMeta =
               \<lparr>om_Name = om_Name (pj_ObjectMeta pj),
                om_Labels = (om_Labels (pj_ObjectMeta pj))
                   (CreatedByProw K \<mapsto> ''true'', ProwJobTypeLabel K \<mapsto> pjs_Type (pj_Spec pj)),
                om_Annotations = [ProwJobAnnotation K \<mapsto> pjs_Job (pj_Spec pj)]\<rparr>,
             pod_Spec =
               \<lparr>ps_RestartPolicy = ''Never'',
                ps_InitContainers = initContainers,
                ps_Containers = containers\<rparr>\<rparr>,
       None), h2)"
  by (simp add: ProwJobToPod_def Let_def)




text \<open>
  C6. \<open>ProwJobToPod\<close> returns an error iff \<open>EnvForSpec\<close> does; it then returns that error and
  no pod; and when it returns no error it returns a pod.
\<close>

theorem ProwJobToPod_error_iff:
  "(snd (fst (ProwJobToPod K NewJobSpec EnvForSpec init_order order grow h pj buildID)) \<noteq> None
      \<longleftrightarrow>
    snd (EnvForSpec (NewJobSpec (pj_Spec pj) buildID (om_Name (pj_ObjectMeta pj)))) \<noteq> None) \<and>
   (snd (fst (ProwJobToPod K NewJobSpec EnvForSpec init_order order grow h pj buildID)) \<noteq> None
      \<longrightarrow>
    fst (fst (ProwJobToPod K NewJobSpec EnvForSpec init_order order grow h pj buildID)) = None \<and>
    snd (fst (ProwJobToPod K NewJobSpec EnvForSpec init_order order grow h pj buildID)) =
      snd (EnvForSpec (NewJobSpec (pj_Spec pj) buildID (om_Name (pj_ObjectMeta pj))))) \<and>
   (snd (fst (ProwJobToPod K NewJobSpec EnvForSpec init_order order grow h pj buildID)) = None
      \<longrightarrow>
    fst (fst (ProwJobToPod K NewJobSpec EnvForSpec init_order order grow h pj buildID)) \<noteq> None)"
proof (cases "EnvForSpec (NewJobSpec (pj_Spec pj) buildID (om_Name (pj_ObjectMeta pj)))")
  case (Pair env err)
  show ?thesis
  proof (cases err)
    case None
    obtain ic h1 where i1: "copy_containers (om_Name (pj_ObjectMeta pj)) env init_order grow
        (ps_InitContainers (pjs_PodSpec (pj_Spec pj))) 0 [] h = (ic, h1)"
      by (cases "copy_containers (om_Name (pj_ObjectMeta pj)) env init_order grow
        (ps_InitContainers (pjs_PodSpec (pj_Spec pj))) 0 [] h")
    obtain cc h2 where c1: "copy_containers (om_Name (pj_ObjectMeta pj)) env order grow
        (ps_Containers (pjs_PodSpec (pj_Spec pj))) 0 [] h1 = (cc, h2)"
      by (cases "copy_containers (om_Name (pj_ObjectMeta pj)) env order grow
        (ps_Containers (pjs_PodSpec (pj_Spec pj))) 0 [] h1")
    from Pair None have e: "EnvForSpec
        (NewJobSpec (pj_Spec pj) buildID (om_Name (pj_ObjectMeta pj))) = (env, None)"
      by simp
    show ?thesis
      unfolding ProwJobToPod_success[where EnvForSpec = EnvForSpec and NewJobSpec = NewJobSpec
          and pj = pj and buildID = buildID and env = env and K = K, OF e i1 c1] e
      by simp
  next
    case (Some er)
    with Pair have e: "EnvForSpec
        (NewJobSpec (pj_Spec pj) buildID (om_Name (pj_ObjectMeta pj))) = (env, Some er)"
      by simp
    show ?thesis
      unfolding ProwJobToPod_error[where EnvForSpec = EnvForSpec and NewJobSpec = NewJobSpec
          and pj = pj and buildID = buildID and env = env, OF e] e
      by simp
  qed
qed

text \<open>
  With a derivation that fails there is an error and no pod; with one that succeeds there is
  a pod and no error.
\<close>

theorem ProwJobToPod_error_iff_witness:
  "snd (ex_EnvForSpec_fails
          (ex_NewJobSpec (pj_Spec ex_pod_job) ''42'' (om_Name (pj_ObjectMeta ex_pod_job)))) \<noteq> None \<and>
   snd (fst (ProwJobToPod ex_K ex_NewJobSpec ex_EnvForSpec_fails ex_order ex_order ex_grow
               ex_heap ex_pod_job ''42'')) = Some ''no environment'' \<and>
   fst (fst (ProwJobToPod ex_K ex_NewJobSpec ex_EnvForSpec_fails ex_order ex_order ex_grow
               ex_heap ex_pod_job ''42'')) = None \<and>
   snd (ex_EnvForSpec
          (ex_NewJobSpec (pj_Spec ex_pod_job) ''42'' (om_Name (pj_ObjectMeta ex_pod_job)))) = None \<and>
   snd (fst (ProwJobToPod ex_K ex_NewJobSpec ex_EnvForSpec ex_order ex_order ex_grow
               ex_heap ex_pod_job ''42'')) = None \<and>
   fst (fst (ProwJobToPod ex_K ex_NewJobSpec ex_EnvForSpec ex_order ex_order ex_grow
               ex_heap ex_pod_job ''42'')) \<noteq> None"
proof -
  have f: "snd (ex_EnvForSpec_fails
          (ex_NewJobSpec (pj_Spec ex_pod_job) ''42'' (om_Name (pj_ObjectMeta ex_pod_job))))
        = Some ''no environment''"
    by (simp add: ex_EnvForSpec_fails_def)
  have g: "snd (ex_EnvForSpec
          (ex_NewJobSpec (pj_Spec ex_pod_job) ''42'' (om_Name (pj_ObjectMeta ex_pod_job))))
        = None"
    by (simp add: ex_EnvForSpec_def)
  from ProwJobToPod_error_iff[of ex_K ex_NewJobSpec ex_EnvForSpec_fails ex_order ex_order
      ex_grow ex_heap ex_pod_job "''42''"] f
  have "snd (fst (ProwJobToPod ex_K ex_NewJobSpec ex_EnvForSpec_fails ex_order ex_order ex_grow
                    ex_heap ex_pod_job ''42'')) = Some ''no environment'' \<and>
        fst (fst (ProwJobToPod ex_K ex_NewJobSpec ex_EnvForSpec_fails ex_order ex_order ex_grow
                    ex_heap ex_pod_job ''42'')) = None"
    by simp
  moreover
  from ProwJobToPod_error_iff[of ex_K ex_NewJobSpec ex_EnvForSpec ex_order ex_order
      ex_grow ex_heap ex_pod_job "''42''"] g
  have "snd (fst (ProwJobToPod ex_K ex_NewJobSpec ex_EnvForSpec ex_order ex_order ex_grow
                    ex_heap ex_pod_job ''42'')) = None \<and>
        fst (fst (ProwJobToPod ex_K ex_NewJobSpec ex_EnvForSpec ex_order ex_order ex_grow
                    ex_heap ex_pod_job ''42'')) \<noteq> None"
    by simp
  ultimately show ?thesis using f g by simp
qed

text \<open>
  C7. When the derivation of the environment succeeds, \<open>ProwJobToPod\<close> returns a pod and no
  error. The pod has the record's name; its labels are the record's labels with
  \<open>CreatedByProw\<close> set to \<open>"true"\<close> and then \<open>ProwJobTypeLabel\<close> set to the spec's job type, so
  every other label is the record's, the type label is the job type, and the provenance
  label is \<open>"true"\<close> as the two label names differ; its one annotation
  is \<open>ProwJobAnnotation\<close> with the job name; and its restart policy is \<open>"Never"\<close>.
\<close>

theorem ProwJobToPod_metadata:
  "EnvForSpec (NewJobSpec (pj_Spec pj) buildID (om_Name (pj_ObjectMeta pj))) = (env, None) \<Longrightarrow>
   \<exists>pod h'.
     ProwJobToPod K NewJobSpec EnvForSpec init_order order grow h pj buildID
       = ((Some pod, None), h') \<and>
     om_Name (pod_ObjectMeta pod) = om_Name (pj_ObjectMeta pj) \<and>
     om_Labels (pod_ObjectMeta pod) =
       (om_Labels (pj_ObjectMeta pj))
         (CreatedByProw K \<mapsto> ''true'', ProwJobTypeLabel K \<mapsto> pjs_Type (pj_Spec pj)) \<and>
     om_Labels (pod_ObjectMeta pod) (ProwJobTypeLabel K) = Some (pjs_Type (pj_Spec pj)) \<and>
     (CreatedByProw K \<noteq> ProwJobTypeLabel K \<longrightarrow>
        om_Labels (pod_ObjectMeta pod) (CreatedByProw K) = Some ''true'') \<and>
     (\<forall>k. k \<noteq> CreatedByProw K \<and> k \<noteq> ProwJobTypeLabel K \<longrightarrow>
        om_Labels (pod_ObjectMeta pod) k = om_Labels (pj_ObjectMeta pj) k) \<and>
     om_Annotations (pod_ObjectMeta pod) = [ProwJobAnnotation K \<mapsto> pjs_Job (pj_Spec pj)] \<and>
     ps_RestartPolicy (pod_Spec pod) = ''Never''"
proof -
  assume e: "EnvForSpec (NewJobSpec (pj_Spec pj) buildID (om_Name (pj_ObjectMeta pj))) = (env, None)"
  obtain ic h1 where i1: "copy_containers (om_Name (pj_ObjectMeta pj)) env init_order grow
      (ps_InitContainers (pjs_PodSpec (pj_Spec pj))) 0 [] h = (ic, h1)"
    by (cases "copy_containers (om_Name (pj_ObjectMeta pj)) env init_order grow
      (ps_InitContainers (pjs_PodSpec (pj_Spec pj))) 0 [] h")
  obtain cc h2 where c1: "copy_containers (om_Name (pj_ObjectMeta pj)) env order grow
      (ps_Containers (pjs_PodSpec (pj_Spec pj))) 0 [] h1 = (cc, h2)"
    by (cases "copy_containers (om_Name (pj_ObjectMeta pj)) env order grow
      (ps_Containers (pjs_PodSpec (pj_Spec pj))) 0 [] h1")
  show ?thesis
    unfolding ProwJobToPod_success[where EnvForSpec = EnvForSpec and NewJobSpec = NewJobSpec
        and pj = pj and buildID = buildID and env = env and K = K, OF e i1 c1]
    by simp
qed

text \<open>
  The example record has the label \<open>team\<close> and a pod template with restart policy
  \<open>Always\<close>.
\<close>

theorem ProwJobToPod_metadata_witness:
  "ex_EnvForSpec (ex_NewJobSpec (pj_Spec ex_pod_job) ''42'' (om_Name (pj_ObjectMeta ex_pod_job)))
     = ([''BUILD_ID'' \<mapsto> ''42'', ''JOB_NAME'' \<mapsto> ''foo''], None) \<and>
   CreatedByProw ex_K \<noteq> ProwJobTypeLabel ex_K \<and>
   (\<exists>pod h'.
      ProwJobToPod ex_K ex_NewJobSpec ex_EnvForSpec ex_order ex_order ex_grow ex_heap
        ex_pod_job ''42'' = ((Some pod, None), h') \<and>
      om_Name (pod_ObjectMeta pod) = ''pj'' \<and>
      om_Labels (pod_ObjectMeta pod) =
        [''team'' \<mapsto> ''infra'', ''created-by-prow'' \<mapsto> ''true'',
         ''prow.k8s.io/type'' \<mapsto> ''presubmit''] \<and>
      om_Labels (pod_ObjectMeta pod) ''created-by-prow'' = Some ''true'' \<and>
      om_Labels (pod_ObjectMeta pod) ''prow.k8s.io/type'' = Some ''presubmit'' \<and>
      om_Labels (pod_ObjectMeta pod) ''team'' = Some ''infra'' \<and>
      om_Annotations (pod_ObjectMeta pod) = [''prow.k8s.io/job'' \<mapsto> ''foo''] \<and>
      ps_RestartPolicy (pod_Spec pod) = ''Never'')"
proof -
  have e: "ex_EnvForSpec
      (ex_NewJobSpec (pj_Spec ex_pod_job) ''42'' (om_Name (pj_ObjectMeta ex_pod_job)))
     = ([''BUILD_ID'' \<mapsto> ''42'', ''JOB_NAME'' \<mapsto> ''foo''], None)"
    by (simp add: ex_EnvForSpec_def ex_NewJobSpec_def ex_pod_job_def)
  have f: "om_Name (pj_ObjectMeta ex_pod_job) = ''pj''"
    "om_Labels (pj_ObjectMeta ex_pod_job) = [''team'' \<mapsto> ''infra'']"
    "pjs_Type (pj_Spec ex_pod_job) = ''presubmit''"
    "pjs_Job (pj_Spec ex_pod_job) = ''foo''"
    "CreatedByProw ex_K = ''created-by-prow''"
    "ProwJobTypeLabel ex_K = ''prow.k8s.io/type''"
    "ProwJobAnnotation ex_K = ''prow.k8s.io/job''"
    by (simp_all add: ex_pod_job_def ex_K_def)
  from ProwJobToPod_metadata[where EnvForSpec = ex_EnvForSpec and NewJobSpec = ex_NewJobSpec
      and pj = ex_pod_job and buildID = "''42''" and K = ex_K and init_order = ex_order
      and order = ex_order and grow = ex_grow and h = ex_heap, OF e]
  obtain pod h' where p:
    "ProwJobToPod ex_K ex_NewJobSpec ex_EnvForSpec ex_order ex_order ex_grow ex_heap
       ex_pod_job ''42'' = ((Some pod, None), h')"
    "om_Name (pod_ObjectMeta pod) = ''pj''"
    "om_Labels (pod_ObjectMeta pod) =
        [''team'' \<mapsto> ''infra'', ''created-by-prow'' \<mapsto> ''true'',
         ''prow.k8s.io/type'' \<mapsto> ''presubmit'']"
    "om_Annotations (pod_ObjectMeta pod) = [''prow.k8s.io/job'' \<mapsto> ''foo'']"
    "ps_RestartPolicy (pod_Spec pod) = ''Never''"
    unfolding f by blast
  have d: "CreatedByProw ex_K \<noteq> ProwJobTypeLabel ex_K"
    by (simp add: ex_K_def)
  have l: "om_Labels (pod_ObjectMeta pod) ''created-by-prow'' = Some ''true''"
    "om_Labels (pod_ObjectMeta pod) ''prow.k8s.io/type'' = Some ''presubmit''"
    "om_Labels (pod_ObjectMeta pod) ''team'' = Some ''infra''"
    unfolding p(3) by simp_all
  from e d p l show ?thesis by blast
qed

end
